theory Spec2Isabelle
  imports Main "HOL-Library.Sublist"
begin

section \<open>Strings and Python values\<close>

text \<open>
  A Python \<open>str\<close> is modelled as a \<open>string\<close>, a list of characters with code points
  0 to 255.  \<open>None\<close> is the \<open>None\<close> of an option type.  The \<open>print\<close> calls of the
  source write to standard output only and are left out.
\<close>

text \<open>Python's truth value of a string and of an optional string.\<close>

definition truthy :: "string \<Rightarrow> bool" where
  "truthy s = (s \<noteq> [])"

definition truthy_opt :: "string option \<Rightarrow> bool" where
  "truthy_opt v = (case v of None \<Rightarrow> False | Some s \<Rightarrow> truthy s)"

text \<open>\<open>sub in s\<close> on strings: \<open>sub\<close> occurs in \<open>s\<close> as a contiguous substring.\<close>

fun py_in :: "string \<Rightarrow> string \<Rightarrow> bool" where
  "py_in sub [] = (sub = [])"
| "py_in sub (c # cs) = (if prefix sub (c # cs) then True else py_in sub cs)"

text \<open>\<open>str(n)\<close> for an integer: decimal digits, with a minus sign when negative.\<close>

function str_nat :: "nat \<Rightarrow> string" where
  "str_nat n = (if n < 10 then [''0123456789'' ! n]
                else str_nat (n div 10) @ [''0123456789'' ! (n mod 10)])"
  by pat_completeness auto
termination
  by (relation "measure (\<lambda>n. n)") auto

declare str_nat.simps [simp del]

definition str_int :: "int \<Rightarrow> string" where
  "str_int i = (if i < 0 then CHR ''-'' # str_nat (nat (- i)) else str_nat (nat i))"

text \<open>An f-string renders an optional string as itself, and \<open>None\<close> as the text None.\<close>

definition fmt_opt :: "string option \<Rightarrow> string" where
  "fmt_opt v = (case v of None \<Rightarrow> ''None'' | Some s \<Rightarrow> s)"

text \<open>
  A value of the JSON answer of the language model, as Python holds it: \<open>None\<close>, a
  string, or a value that is no string (a number, a boolean, a list, a dictionary), given
  by its truth value, the name of its type and its \<open>str\<close> text.  The actions are
  copied from that answer unchecked, so their fields hold such values.
\<close>

datatype json = Null | Str string | Non_string bool string string

definition truthy_val :: "json \<Rightarrow> bool" where
  "truthy_val v = (case v of Null \<Rightarrow> False | Str s \<Rightarrow> truthy s | Non_string b ty txt \<Rightarrow> b)"

text \<open>The text of a value in an f-string.\<close>

definition str_val :: "json \<Rightarrow> string" where
  "str_val v = (case v of Null \<Rightarrow> ''None'' | Str s \<Rightarrow> s | Non_string b ty txt \<Rightarrow> txt)"

text \<open>
  The text of the \<open>AttributeError\<close> raised when a method of \<open>str\<close> is called on a
  value of another type.
\<close>

definition attribute_error :: "string \<Rightarrow> string \<Rightarrow> string" where
  "attribute_error ty attr =
     [CHR 0x27] @ ty @ [CHR 0x27] @ '' object has no attribute '' @ [CHR 0x27] @ attr
     @ [CHR 0x27]"

section \<open>The shared state (state.py)\<close>

record TestAction =
  action :: json
  target :: json
  selector :: json
  avalue :: json

record ValidationResult =
  is_valid :: bool
  v_error_message :: "string option"
  error_line :: "int option"

record StepResult =
  step_number :: int
  step_action :: string
  step_selector :: "string option"
  status :: string
  error :: "string option"
  time_ms :: int
  screenshot :: "string option"

record ExecutionResult =
  success :: bool
  steps :: "StepResult list"
  total_time_ms :: int
  console_logs :: "string list"
  error_message :: "string option"

record TestReport =
  r_status :: string
  total_steps :: int
  passed :: int
  failed :: int
  execution_time_ms :: int
  r_steps :: "StepResult list"
  failure_reason :: "string option"
  screenshots :: "string list"
  human_readable :: string

record AgentState =
  instruction :: string
  base_url :: string
  parsed_actions :: "TestAction list"
  generated_code :: string
  test_file_path :: string
  validation_result :: ValidationResult
  execution_result :: ExecutionResult
  report :: TestReport
  errors :: "string list"
  retry_count :: int
  max_retries :: int

definition create_initial_state :: "string \<Rightarrow> string \<Rightarrow> AgentState" where
  "create_initial_state instr url =
     \<lparr> instruction = instr,
       base_url = url,
       parsed_actions = [],
       generated_code = [],
       test_file_path = [],
       validation_result = \<lparr> is_valid = False, v_error_message = None, error_line = None \<rparr>,
       execution_result =
         \<lparr> success = False, steps = [], total_time_ms = 0, console_logs = [],
           error_message = None \<rparr>,
       report =
         \<lparr> r_status = ''PENDING'', total_steps = 0, passed = 0, failed = 0,
           execution_time_ms = 0, r_steps = [], failure_reason = None, screenshots = [],
           human_readable = [] \<rparr>,
       errors = [],
       retry_count = 0,
       max_retries = 3 \<rparr>"

section \<open>The reporter (nodes/reporter.py)\<close>

record Summary =
  s_total :: int
  s_passed :: int
  s_failed :: int

definition calculate_summary :: "StepResult list \<Rightarrow> Summary" where
  "calculate_summary sts =
     (let total = int (length sts);
          n_passed = int (length (filter (\<lambda>st. status st = ''pass'') sts))
      in \<lparr> s_total = total, s_passed = n_passed, s_failed = total - n_passed \<rparr>)"

fun get_failure_reason :: "StepResult list \<Rightarrow> string option \<Rightarrow> string option" where
  "get_failure_reason [] msg = (if truthy_opt msg then msg else None)"
| "get_failure_reason (st # sts) msg =
     (if status st = ''fail'' \<and> truthy_opt (error st)
      then Some (''Step '' @ str_int (step_number st) @ '' ('' @ step_action st @ ''): ''
                 @ fmt_opt (error st))
      else get_failure_reason sts msg)"

definition collect_screenshots :: "StepResult list \<Rightarrow> string list" where
  "collect_screenshots sts =
     concat (map (\<lambda>st. case screenshot st of
                          None \<Rightarrow> []
                        | Some p \<Rightarrow> (if truthy p then [p] else [])) sts)"

text \<open>
  \<open>generate_report\<close>.  The text of \<open>generate_human_readable_report\<close> reads the clock
  and feeds no other field of the report; it is the parameter \<open>hr\<close>.
\<close>

definition generate_report :: "string \<Rightarrow> AgentState \<Rightarrow> AgentState" where
  "generate_report hr state =
     (let er = execution_result state;
          sts = steps er;
          summary = calculate_summary sts;
          st = (if success er \<and> s_failed summary = 0 then ''PASSED'' else ''FAILED'');
          reason = get_failure_reason sts (error_message er)
      in state\<lparr> report :=
           \<lparr> r_status = st,
             total_steps = s_total summary,
             passed = s_passed summary,
             failed = s_failed summary,
             execution_time_ms = total_time_ms er,
             r_steps = sts,
             failure_reason = reason,
             screenshots = collect_screenshots sts,
             human_readable = hr \<rparr> \<rparr>)"

section \<open>The error handler (nodes/error_handler.py)\<close>

text \<open>The table of alternatives, in the order in which the dictionary is written.\<close>

definition SELECTOR_ALTERNATIVES :: "(string \<times> string list) list" where
  "SELECTOR_ALTERNATIVES =
     [(''button'',
         [''button[type='submit']'', ''button'', ''input[type='submit']'', ''[role='button']'']),
      (''username'',
         [''input[name='username']'', ''input[id='username']'', ''input[type='text']'',
          ''#username'', ''[placeholder*='user']'']),
      (''password'',
         [''input[name='password']'', ''input[id='password']'', ''input[type='password']'',
          ''#password'', ''[placeholder*='pass']'']),
      (''email'',
         [''input[name='email']'', ''input[id='email']'', ''input[type='email']'',
          ''#email'', ''[placeholder*='email']'']),
      (''search'',
         [''input[name='search']'', ''input[name='query']'', ''input[id='search']'',
          ''input[type='search']'', ''#search'', ''[placeholder*='search']'']),
      (''login'',
         [''button:has-text('Login')'', ''button:has-text('Sign In')'',
          ''button:has-text('Log In')'', ''input[type='submit']'',
          ''button[type='submit']''])]"

subsection \<open>The regular expressions\<close>

text \<open>
  \<open>re.search\<close> tries the pattern at every position from the left and returns the first
  match.  The argument \<open>m\<close> matches the pattern at the start of the text it is given.
\<close>

fun re_search :: "(string \<Rightarrow> 'a option) \<Rightarrow> string \<Rightarrow> 'a option" where
  "re_search m [] = m []"
| "re_search m (c # cs) = (case m (c # cs) of Some g \<Rightarrow> Some g | None \<Rightarrow> re_search m cs)"

text \<open>
  The pattern \<open>pre([^...]+)post\<close> at the start of \<open>t\<close>: the literal \<open>pre\<close>, a
  non-empty run of characters of the class \<open>cls\<close> (the group), the literal \<open>post\<close>.
  In each pattern of the source \<open>post\<close> starts with a character outside the class, so
  the run that matches is the longest one and backtracking finds no other.
\<close>

definition match_group :: "string \<Rightarrow> (char \<Rightarrow> bool) \<Rightarrow> string \<Rightarrow> string \<Rightarrow> string option" where
  "match_group pre cls post t =
     (if prefix pre t
      then (let r = drop (length pre) t; g = takeWhile cls r
            in if g \<noteq> [] \<and> prefix post (dropWhile cls r) then Some g else None)
      else None)"

text \<open>
  A greedy \<open>.*\<close> followed by the pattern \<open>m\<close>: the dot takes no newline, and the
  longest stretch is tried first, so the rightmost position of the line where \<open>m\<close>
  matches wins.
\<close>

fun dot_star :: "(string \<Rightarrow> 'a option) \<Rightarrow> string \<Rightarrow> 'a option" where
  "dot_star m [] = m []"
| "dot_star m (c # cs) =
     (if c = CHR 0x0A then m (c # cs)
      else (case dot_star m cs of Some g \<Rightarrow> Some g | None \<Rightarrow> m (c # cs)))"

definition not_dquote :: "char \<Rightarrow> bool" where
  "not_dquote c = (c \<noteq> CHR 0x22)"

definition not_squote :: "char \<Rightarrow> bool" where
  "not_squote c = (c \<noteq> CHR 0x27)"

text \<open>The class \<open>[^\s]\<close>: every character but the white space of Python's \<open>str\<close>.\<close>

definition not_space :: "char \<Rightarrow> bool" where
  "not_space c =
     (c \<notin> set [CHR 0x09, CHR 0x0A, CHR 0x0B, CHR 0x0C, CHR 0x0D, CHR 0x1C, CHR 0x1D,
                CHR 0x1E, CHR 0x1F, CHR 0x20, CHR 0x85, CHR 0xA0])"

definition pattern1 :: "string \<Rightarrow> string option" where
  \<open>pattern1 = match_group ''Selector "'' not_dquote ''" not found''\<close>

definition pattern2 :: "string \<Rightarrow> string option" where
  \<open>pattern2 t =
     (if prefix ''locator.click: Timeout'' t
      then dot_star (match_group ''selector="'' not_dquote ''"'')
             (drop (length ''locator.click: Timeout'') t)
      else None)\<close>

definition pattern3 :: "string \<Rightarrow> string option" where
  \<open>pattern3 = match_group ''waiting for selector "'' not_dquote ''"''\<close>

definition pattern4 :: "string \<Rightarrow> string option" where
  "pattern4 = match_group ''Error: '' not_space '' not found''"

fun first_match :: "(string \<Rightarrow> string option) list \<Rightarrow> string \<Rightarrow> string option" where
  "first_match [] msg = None"
| "first_match (p # ps) msg =
     (case re_search p msg of Some g \<Rightarrow> Some g | None \<Rightarrow> first_match ps msg)"

definition extract_failed_selector :: "string \<Rightarrow> string option" where
  "extract_failed_selector message =
     first_match [pattern1, pattern2, pattern3, pattern4] message"

subsection \<open>Alternatives for a failed selector\<close>

text \<open>\<open>str.lower\<close> on the code points 0 to 255.\<close>

definition lower_char :: "char \<Rightarrow> char" where
  "lower_char c =
     (let n = (of_char c :: nat)
      in if (65 \<le> n \<and> n \<le> 90) \<or> (192 \<le> n \<and> n \<le> 222 \<and> n \<noteq> 215)
         then char_of (n + 32) else c)"

definition lower :: "string \<Rightarrow> string" where
  "lower s = map lower_char s"

text \<open>The loop that removes duplicates and keeps the first occurrence of each text.\<close>

fun unique_alternatives :: "string set \<Rightarrow> string list \<Rightarrow> string list" where
  "unique_alternatives seen [] = []"
| "unique_alternatives seen (alt # alts) =
     (if alt \<in> seen then unique_alternatives seen alts
      else alt # unique_alternatives (insert alt seen) alts)"

definition keyword_alternatives :: "string \<Rightarrow> string list" where
  "keyword_alternatives selector_lower =
     concat (map snd (filter (\<lambda>kv. py_in (fst kv) selector_lower) SELECTOR_ALTERNATIVES))"

definition name_match :: "string \<Rightarrow> string option" where
  "name_match s = re_search (match_group (''name='' @ [CHR 0x27]) not_squote [CHR 0x27]) s"

definition suggest_alternative_selectors :: "string \<Rightarrow> string list" where
  "suggest_alternative_selectors failed_selector =
     (let selector_lower = lower failed_selector;
          alternatives = keyword_alternatives selector_lower;
          alternatives = filter (\<lambda>s. s \<noteq> failed_selector) alternatives;
          alternatives =
            (if py_in ''button'' selector_lower \<or> py_in ''submit'' selector_lower
             then alternatives @ [''button:first-of-type'', ''form button'', ''[type='submit']'']
             else if py_in ''input'' selector_lower
             then (case name_match failed_selector of
                     Some field_name \<Rightarrow>
                       alternatives @
                         [''#'' @ field_name,
                          ''input[id='' @ [CHR 0x27] @ field_name @ [CHR 0x27] @ '']'',
                          ''[placeholder*='' @ [CHR 0x27] @ field_name @ [CHR 0x27] @ '']'']
                   | None \<Rightarrow> alternatives)
             else alternatives)
      in take 5 (unique_alternatives {} alternatives))"

subsection \<open>Rewriting the actions\<close>

text \<open>
  The loop over \<open>state["parsed_actions"]\<close>: the list after the loop and the flag
  \<open>modified\<close>, which starts as the third argument.
\<close>

fun rewrite_actions :: "string \<Rightarrow> string \<Rightarrow> bool \<Rightarrow> TestAction list \<Rightarrow> TestAction list \<times> bool" where
  "rewrite_actions failed_selector new_selector modified [] = ([], modified)"
| "rewrite_actions failed_selector new_selector modified (a # as) =
     (if selector a = Str failed_selector
      then (case rewrite_actions failed_selector new_selector True as of
              (as', m) \<Rightarrow> (a\<lparr>selector := Str new_selector\<rparr> # as', m))
      else (case rewrite_actions failed_selector new_selector modified as of
              (as', m) \<Rightarrow> (a # as', m)))"

text \<open>The function mutates the state and returns a flag; the model returns both.\<close>

definition modify_actions_with_alternatives ::
  "AgentState \<Rightarrow> string \<Rightarrow> string list \<Rightarrow> bool \<times> AgentState" where
  "modify_actions_with_alternatives state failed_selector alternatives =
     (case alternatives of
        [] \<Rightarrow> (False, state)
      | new_selector # _ \<Rightarrow>
          (case rewrite_actions failed_selector new_selector False (parsed_actions state) of
             (as', modified) \<Rightarrow> (modified, state\<lparr>parsed_actions := as'\<rparr>)))"

subsection \<open>The node\<close>

text \<open>The search for a step-level error, which replaces the run-level message.\<close>

fun step_level_error :: "StepResult list \<Rightarrow> string option \<Rightarrow> string option" where
  "step_level_error [] msg = msg"
| "step_level_error (st # sts) msg =
     (if status st = ''fail'' \<and> truthy_opt (error st) then error st
      else step_level_error sts msg)"

text \<open>
  The message \<open>handle_error\<close> analyses: the validation error first, else the execution
  error.  The execution result is a dictionary with five keys, so it is always true as a
  condition.
\<close>

definition failure_message :: "AgentState \<Rightarrow> string option" where
  "failure_message state =
     (if \<not> is_valid (validation_result state)
      then v_error_message (validation_result state)
      else if \<not> success (execution_result state)
      then step_level_error (steps (execution_result state))
             (error_message (execution_result state))
      else None)"

definition repair :: "AgentState \<Rightarrow> string \<Rightarrow> AgentState" where
  "repair state msg =
     (case extract_failed_selector msg of
        None \<Rightarrow> state
      | Some failed_selector \<Rightarrow>
          (if truthy failed_selector
           then (let alternatives = suggest_alternative_selectors failed_selector
                 in if alternatives \<noteq> []
                    then (case modify_actions_with_alternatives state failed_selector
                                 alternatives of
                            (modified, state') \<Rightarrow>
                              (if modified
                               then state'\<lparr> generated_code := [],
                                      validation_result :=
                                        (validation_result state')\<lparr>is_valid := False\<rparr> \<rparr>
                               else state'))
                    else state)
           else state))"

definition handle_error :: "AgentState \<Rightarrow> AgentState" where
  "handle_error state =
     (if retry_count state \<ge> max_retries state
      then state\<lparr> errors := errors state @
             [''Maximum retries ('' @ str_int (max_retries state) @ '') exceeded''] \<rparr>
      else (let state = state\<lparr>retry_count := retry_count state + 1\<rparr>
            in case failure_message state of
                 None \<Rightarrow> state
               | Some msg \<Rightarrow> (if truthy msg then repair state msg else state)))"

definition should_retry :: "AgentState \<Rightarrow> bool" where
  "should_retry state =
     (if retry_count state \<ge> max_retries state then False
      else if \<not> is_valid (validation_result state) then True
      else if \<not> success (execution_result state) then True
      else False)"

section \<open>The instruction parser (nodes/instruction_parser.py)\<close>

text \<open>
  One object of the JSON array the language model returns; a key may be missing.
\<close>

record RawAction =
  raw_action :: "json option"
  raw_target :: "json option"
  raw_selector :: "json option"
  raw_value :: "json option"

text \<open>\<open>d.get(key)\<close>: \<open>None\<close> for a missing key.\<close>

definition get_key :: "json option \<Rightarrow> json" where
  "get_key v = (case v of None \<Rightarrow> Null | Some x \<Rightarrow> x)"

text \<open>\<open>a or b\<close>.\<close>

definition py_or :: "json \<Rightarrow> json \<Rightarrow> json" where
  "py_or a b = (if truthy_val a then a else b)"

definition normalize_action :: "RawAction \<Rightarrow> TestAction" where
  "normalize_action a =
     \<lparr> action = (case raw_action a of None \<Rightarrow> Str [] | Some k \<Rightarrow> k),
       target = (if get_key (raw_action a) = Str ''goto''
                 then py_or (get_key (raw_target a)) (get_key (raw_value a))
                 else Null),
       selector = get_key (raw_selector a),
       avalue = get_key (raw_value a) \<rparr>"

definition normalize_actions :: "RawAction list \<Rightarrow> TestAction list" where
  "normalize_actions actions = map normalize_action actions"

text \<open>
  \<open>parse_instruction\<close>.  The call of the language model is outside the repository: its
  outcome is the first argument, \<open>Inr result\<close> when the chain returned a list of JSON
  objects, \<open>Inl e\<close> when the \<open>try\<close> block raised an exception with text \<open>e\<close>
  (the call failed, or its answer is no such list).
\<close>

definition parse_instruction :: "string + RawAction list \<Rightarrow> AgentState \<Rightarrow> AgentState" where
  "parse_instruction outcome state =
     (case outcome of
        Inr result \<Rightarrow> state\<lparr>parsed_actions := normalize_actions result\<rparr>
      | Inl e \<Rightarrow> state\<lparr> errors := errors state @ [''Failed to parse instruction: '' @ e],
                        parsed_actions := [] \<rparr>)"

section \<open>The code generator (nodes/code_generator.py)\<close>

text \<open>The \<open>join\<close> of a list of lines with a newline between two lines.\<close>

fun join_nl :: "string list \<Rightarrow> string" where
  "join_nl [] = []"
| "join_nl [l] = l"
| "join_nl (l # l' # ls) = l @ CHR 0x0A # join_nl (l' # ls)"

text \<open>
  \<open>PLAYWRIGHT_TEMPLATE.format(timestamp, instruction, test_steps, record_video)\<close>: the
  lines of the template, with the four fields filled in and the doubled braces of the
  format string written once.
\<close>

definition PLAYWRIGHT_TEMPLATE :: "string \<Rightarrow> string \<Rightarrow> string \<Rightarrow> string \<Rightarrow> string" where
  \<open>PLAYWRIGHT_TEMPLATE timestamp instruction_text test_steps record_video =
     join_nl
       [''"""'',
        ''Auto-generated Playwright Test Script'',
        ''Generated: '' @ timestamp,
        ''Instruction: '' @ instruction_text,
        ''"""'',
        '''',
        ''import time'',
        ''from playwright.sync_api import sync_playwright, expect'',
        '''',
        '''',
        ''def run_test():'',
        ''    """Execute the generated test case."""'',
        ''    results = {'',
        ''        "steps": [],'',
        ''        "console_logs": [],'',
        ''        "success": True,'',
        ''        "error_message": None'',
        ''    }'',
        ''    '',
        ''    start_time = time.time()'',
        ''    '',
        ''    with sync_playwright() as p:'',
        ''        # Launch browser in headless mode'',
        ''        browser = p.chromium.launch(headless=True)'',
        ''        context = browser.new_context('',
        ''            viewport={"width": 1280, "height": 720},'',
        ''            record_video_dir="videos/" if '' @ record_video @ '' else None'',
        ''        )'',
        ''        page = context.new_page()'',
        ''        '',
        ''        # Capture console logs'',
        ''        page.on("console", lambda msg: results["console_logs"].append(f"[{msg.type}] {msg.text}"))'',
        ''        '',
        ''        try:'',
        test_steps,
        ''        except Exception as e:'',
        ''            results["success"] = False'',
        ''            results["error_message"] = str(e)'',
        ''            # Take screenshot on failure'',
        ''            try:'',
        ''                page.screenshot(path="screenshots/error_{int(time.time())}.png")'',
        ''                results["steps"][-1]["screenshot"] = f"screenshots/error_{int(time.time())}.png"'',
        ''            except:'',
        ''                pass'',
        ''        finally:'',
        ''            context.close()'',
        ''            browser.close()'',
        ''    '',
        ''    results["total_time_ms"] = int((time.time() - start_time) * 1000)'',
        ''    return results'',
        '''',
        '''',
        ''if __name__ == "__main__":'',
        ''    import json'',
        ''    result = run_test()'',
        ''    print(json.dumps(result, indent=2))'',
        '''']\<close>

text \<open>\<open>s.replace\<close> of a double quote by a backslash and a double quote.\<close>

definition escape_quotes :: "string \<Rightarrow> string" where
  "escape_quotes s = concat (map (\<lambda>c. if c = CHR 0x22 then [CHR 0x5C, CHR 0x22] else [c]) s)"

text \<open>
  \<open>if v: v = v.replace(...)\<close>: a value that is not true is kept, a string gets its
  quotes escaped, and on any other value the call of \<open>replace\<close> raises.
\<close>

definition escape_val :: "json \<Rightarrow> string + json" where
  "escape_val v =
     (if truthy_val v
      then (case v of
              Str s \<Rightarrow> Inr (Str (escape_quotes s))
            | Non_string b ty txt \<Rightarrow> Inl (attribute_error ty ''replace'')
            | Null \<Rightarrow> Inl (attribute_error ''NoneType'' ''replace''))
      else Inr v)"

text \<open>
  The lines of one action, by its type.  For \<open>goto\<close> the path is
  \<open>target or value or "/"\<close>, and \<open>startswith\<close> raises when that is no string.
\<close>

definition action_lines :: "TestAction \<Rightarrow> string \<Rightarrow> json \<Rightarrow> json \<Rightarrow> string + string list" where
  \<open>action_lines a url sel v =
     (if action a = Str ''goto''
      then (case py_or (target a) (py_or v (Str ''/'')) of
              Str url_path \<Rightarrow>
                (let url_path = (if prefix ''http'' url_path then url_path else url @ url_path)
                 in Inr [''                page.goto("'' @ url_path @ ''")'',
                         ''                page.wait_for_load_state("networkidle")''])
            | Non_string b ty txt \<Rightarrow> Inl (attribute_error ty ''startswith'')
            | Null \<Rightarrow> Inl (attribute_error ''NoneType'' ''startswith''))
      else if action a = Str ''click''
      then Inr [''                page.click("'' @ str_val sel @ ''")'']
      else if action a = Str ''fill''
      then Inr [''                page.fill("'' @ str_val sel @ ''", "'' @ str_val v @ ''")'']
      else if action a = Str ''wait''
      then Inr [''                page.wait_for_selector("'' @ str_val sel
                  @ ''", timeout=10000)'']
      else if action a = Str ''assert_url''
      then Inr [''                assert "'' @ str_val v
                  @ ''" in page.url, f"URL assertion failed: expected '' @ [CHR 0x5C] @ ''"''
                  @ str_val v @ [CHR 0x5C] @ ''" in {page.url}"'']
      else if action a = Str ''assert_visible''
      then Inr [''                expect(page.locator("'' @ str_val sel
                  @ ''")).to_be_visible()'']
      else if action a = Str ''assert_text''
      then (if truthy_val sel
            then Inr [''                expect(page.locator("'' @ str_val sel
                        @ ''")).to_contain_text("'' @ str_val v @ ''")'']
            else Inr [''                expect(page.locator("body")).to_contain_text("''
                        @ str_val v @ ''")''])
      else Inr [''                pass  # Unknown action: '' @ str_val (action a)])\<close>

text \<open>
  \<open>generate_step_code\<close>: the code of one step, or \<open>Inl\<close> the text of the exception
  it raises.
\<close>

definition generate_step_code :: "TestAction \<Rightarrow> int \<Rightarrow> string \<Rightarrow> string + string" where
  \<open>generate_step_code a step_no url =
     (case escape_val (selector a) of
        Inl e \<Rightarrow> Inl e
      | Inr sel \<Rightarrow>
          (case escape_val (avalue a) of
             Inl e \<Rightarrow> Inl e
           | Inr v \<Rightarrow>
               (case action_lines a url sel v of
                  Inl e \<Rightarrow> Inl e
                | Inr lines \<Rightarrow>
                    Inr (join_nl
                      ([''            # Step '' @ str_int step_no @ '': '' @ str_val (action a),
                        ''            step_start = time.time()'',
                        ''            step_result = {"step_number": '' @ str_int step_no
                          @ '', "action": "'' @ str_val (action a) @ ''", "selector": "''
                          @ str_val sel
                          @ ''", "status": "pass", "error": None, "time_ms": 0, "screenshot": None}'',
                        ''            try:'']
                       @ lines
                       @ [''            except Exception as step_error:'',
                          ''                step_result["status"] = "fail"'',
                          ''                step_result["error"] = str(step_error)'',
                          ''                raise'',
                          ''            finally:'',
                          ''                step_result["time_ms"] = int((time.time() - step_start) * 1000)'',
                          ''                results["steps"].append(step_result)'',
                          ''''])))))\<close>

text \<open>
  The loop \<open>for i, action in enumerate(parsed_actions, 1)\<close>; the first step that
  raises ends it.
\<close>

fun step_codes :: "TestAction list \<Rightarrow> int \<Rightarrow> string \<Rightarrow> string + string list" where
  "step_codes [] i url = Inr []"
| "step_codes (a # as) i url =
     (case generate_step_code a i url of
        Inl e \<Rightarrow> Inl e
      | Inr step_code \<Rightarrow>
          (case step_codes as (i + 1) url of
             Inl e \<Rightarrow> Inl e
           | Inr codes \<Rightarrow> Inr (step_code # codes)))"

text \<open>
  \<open>generate_code\<close>.  The first argument is the value of
  \<open>datetime.now().isoformat()\<close> at the call.  An exception in the \<open>try\<close> block is
  caught: its text goes to \<open>errors\<close> and the script is the empty text.
\<close>

definition generate_code :: "string \<Rightarrow> AgentState \<Rightarrow> AgentState" where
  "generate_code timestamp state =
     (if parsed_actions state = []
      then state\<lparr> errors := errors state @ [''No parsed actions to generate code from''],
                  generated_code := [] \<rparr>
      else (case step_codes (parsed_actions state) 1 (base_url state) of
              Inr codes \<Rightarrow>
                state\<lparr> generated_code :=
                  PLAYWRIGHT_TEMPLATE timestamp (escape_quotes (instruction state))
                    (join_nl codes) ''False'' \<rparr>
            | Inl e \<Rightarrow>
                state\<lparr> errors := errors state @ [''Failed to generate code: '' @ e],
                       generated_code := [] \<rparr>))"

text \<open>
  The actions on which \<open>generate_step_code\<close> raises, as the properties below show: a
  selector or a value that is true and no string, or for \<open>goto\<close> such a target.
\<close>

definition truthy_non_string :: "json \<Rightarrow> bool" where
  "truthy_non_string v = (case v of Non_string b ty txt \<Rightarrow> b | Str s \<Rightarrow> False | Null \<Rightarrow> False)"

definition unrenderable :: "TestAction \<Rightarrow> bool" where
  "unrenderable a =
     (truthy_non_string (selector a) \<or> truthy_non_string (avalue a)
      \<or> (action a = Str ''goto'' \<and> truthy_non_string (target a)))"

section \<open>The validator (nodes/validator.py)\<close>

text \<open>
  \<open>ast.parse\<close> is Python's own parser.  Its outcome on a text is a parameter of the
  model: the text parses, or \<open>SyntaxError\<close> is raised with a message and a line.
\<close>

datatype syntax_outcome = Parsed | SyntaxError string "int option"

definition check_syntax :: "(string \<Rightarrow> syntax_outcome) \<Rightarrow> string \<Rightarrow> bool \<times> string \<times> int" where
  "check_syntax python_parse code =
     (case python_parse code of
        Parsed \<Rightarrow> (True, [], 0)
      | SyntaxError msg lineno \<Rightarrow>
          (False, ''Syntax error: '' @ msg, (case lineno of None \<Rightarrow> 0 | Some n \<Rightarrow> n)))"

fun missing_import :: "string list \<Rightarrow> string \<Rightarrow> bool \<times> string" where
  "missing_import [] code = (True, [])"
| "missing_import (imp # imps) code =
     (if py_in imp code then missing_import imps code
      else (False, ''Missing required import: '' @ imp))"

definition check_required_imports :: "string \<Rightarrow> bool \<times> string" where
  "check_required_imports code = missing_import [''playwright'', ''sync_playwright''] code"

definition check_function_structure :: "string \<Rightarrow> bool \<times> string" where
  "check_function_structure code =
     (if \<not> py_in ''def run_test'' code then (False, ''Missing run_test function'')
      else if \<not> py_in ''launch('' code then (False, ''Missing browser launch'')
      else if \<not> py_in ''close()'' code then (False, ''Missing browser close'')
      else (True, []))"

text \<open>
  The pattern of \<open>check_selectors\<close>, a call of \<open>page.click\<close>, \<open>page.fill\<close> or
  \<open>page.wait_for_selector\<close> with one double-quoted argument, at the start of \<open>t\<close>:
  the text between the quotes and the length of the match.
\<close>

definition match_call :: "string \<Rightarrow> string \<Rightarrow> (string \<times> nat) option" where
  \<open>match_call name t =
     (let pre = ''page.'' @ name @ ''("''
      in if prefix pre t
         then (let r = drop (length pre) t; g = takeWhile not_dquote r
               in if prefix ''")'' (dropWhile not_dquote r)
                  then Some (g, length pre + length g + 2) else None)
         else None)\<close>

definition match_selector_call :: "string \<Rightarrow> (string \<times> nat) option" where
  "match_selector_call t =
     (case match_call ''click'' t of
        Some r \<Rightarrow> Some r
      | None \<Rightarrow> (case match_call ''fill'' t of
                   Some r \<Rightarrow> Some r
                 | None \<Rightarrow> match_call ''wait_for_selector'' t))"

text \<open>
  \<open>re.findall\<close>: the matches from left to right, none overlapping another.  The first
  argument counts the characters of the last match that are still to be passed over.
\<close>

fun findall_selectors :: "nat \<Rightarrow> string \<Rightarrow> string list" where
  "findall_selectors k [] = []"
| "findall_selectors (Suc k) (c # cs) = findall_selectors k cs"
| "findall_selectors 0 (c # cs) =
     (case match_selector_call (c # cs) of
        Some (g, n) \<Rightarrow> g # findall_selectors (n - 1) cs
      | None \<Rightarrow> findall_selectors 0 cs)"

fun unescaped_quotes :: "string list \<Rightarrow> bool \<times> string" where
  "unescaped_quotes [] = (True, [])"
| "unescaped_quotes (sel # sels) =
     (if count_list sel (CHR 0x22) > 0 then (False, ''Unescaped quotes in selector: '' @ sel)
      else unescaped_quotes sels)"

text \<open>
  \<open>check_selectors\<close>.  The first condition of the source is
  \<open>'page.click("")' in code or 'page.fill("",'\<close>: its second operand is a string
  constant, taken by its truth value.
\<close>

definition check_selectors :: "string \<Rightarrow> bool \<times> string" where
  \<open>check_selectors code =
     (if py_in ''page.click("")'' code \<or> truthy ''page.fill("",''
      then (False, ''Empty selector detected'')
      else unescaped_quotes (findall_selectors 0 code))\<close>

text \<open>The loop over the four named results: the first check that failed.\<close>

fun first_failed_check :: "(string \<times> bool \<times> string \<times> int) list \<Rightarrow> ValidationResult" where
  "first_failed_check [] = \<lparr> is_valid = True, v_error_message = None, error_line = None \<rparr>"
| "first_failed_check ((check_name, ok, error_msg, line) # checks) =
     (if \<not> ok
      then \<lparr> is_valid = False,
             v_error_message = Some (check_name @ '' check failed: '' @ error_msg),
             error_line = Some line \<rparr>
      else first_failed_check checks)"

text \<open>A result of two components gets the line 0.\<close>

definition with_line_0 :: "bool \<times> string \<Rightarrow> bool \<times> string \<times> int" where
  "with_line_0 r = (fst r, snd r, 0)"

definition validate_code :: "(string \<Rightarrow> syntax_outcome) \<Rightarrow> AgentState \<Rightarrow> AgentState" where
  "validate_code python_parse state =
     (let code = generated_code state
      in if \<not> truthy code
         then state\<lparr> validation_result :=
                \<lparr> is_valid = False, v_error_message = Some ''No code to validate'',
                  error_line = Some 0 \<rparr> \<rparr>
         else state\<lparr> validation_result :=
                first_failed_check
                  [(''Syntax'', check_syntax python_parse code),
                   (''Imports'', with_line_0 (check_required_imports code)),
                   (''Structure'', with_line_0 (check_function_structure code)),
                   (''Selectors'', with_line_0 (check_selectors code))] \<rparr>)"

definition is_valid_fn :: "AgentState \<Rightarrow> bool" where
  "is_valid_fn state = is_valid (validation_result state)"

section \<open>The executor (nodes/executor.py)\<close>

text \<open>
  What \<open>run_test\<close> of the generated script returns: a dictionary, some of whose keys
  may be missing, or an object that is no dictionary.
\<close>

record RunResult =
  res_success :: "bool option"
  res_steps :: "StepResult list option"
  res_total_time_ms :: "int option"
  res_console_logs :: "string list option"
  res_error_message :: "string option"

datatype py_object = Dict RunResult | Other_object

text \<open>
  The text \<open>str(e)\<close> of an exception, which the handler computes: a text, or the
  \<open>__str__\<close> of the exception raises in turn (given with the type name of what it
  raises).
\<close>

datatype str_outcome = Text string | Str_raises string

text \<open>
  What compiling and running the script does, seen from \<open>execute_code_safely\<close>: it
  raises an exception of class \<open>Exception\<close> (with its type name, its \<open>str\<close> and the
  traceback), it raises one that is a \<open>BaseException\<close> only, such as \<open>SystemExit\<close>
  (with its type name), it defines no \<open>run_test\<close>, or \<open>run_test\<close> returns an
  object.
\<close>

datatype script_behaviour =
    Raises string str_outcome string
  | Raises_base string
  | Defines_no_run_test
  | Returns py_object

datatype fault = Uncaught string

text \<open>
  One call of the executor, as its surroundings decide it: \<open>save_test_file\<close> returns
  the path of the file it wrote or raises; \<open>ensure_directories\<close> and the writing of
  the temporary file, which come before the \<open>try\<close>, succeed or raise; what the script
  does; the milliseconds measured around the run.
\<close>

record script_run =
  saved_file :: "fault + string"
  prepared :: "fault option"
  behaviour :: script_behaviour
  elapsed_ms :: int

text \<open>
  \<open>execute_code_safely\<close>: the file operations, then
  \<open>try: ... except Exception as e: ...\<close> around the script.  The handler formats
  \<open>str(e)\<close>; what that raises leaves the function.
\<close>

definition execute_code_safely :: "fault option \<Rightarrow> script_behaviour \<Rightarrow> fault + py_object" where
  "execute_code_safely prep what =
     (case prep of
        Some f \<Rightarrow> Inl f
      | None \<Rightarrow>
          (case what of
             Returns result \<Rightarrow> Inr result
           | Defines_no_run_test \<Rightarrow>
               Inr (Dict \<lparr> res_success = Some False, res_steps = Some [],
                            res_total_time_ms = Some 0, res_console_logs = Some [],
                            res_error_message =
                              Some ''run_test function not found in generated code'' \<rparr>)
           | Raises name (Text msg) traceback \<Rightarrow>
               Inr (Dict \<lparr> res_success = Some False, res_steps = Some [],
                            res_total_time_ms = Some 0, res_console_logs = Some [],
                            res_error_message =
                              Some (name @ '': '' @ msg @ [CHR 0x0A] @ traceback) \<rparr>)
           | Raises name (Str_raises inner) traceback \<Rightarrow> Inl (Uncaught inner)
           | Raises_base name \<Rightarrow> Inl (Uncaught name)))"

text \<open>\<open>d.get(key, default)\<close> on a key that may be missing.\<close>

definition get_default :: "'a option \<Rightarrow> 'a \<Rightarrow> 'a" where
  "get_default v d = (case v of None \<Rightarrow> d | Some x \<Rightarrow> x)"

text \<open>
  \<open>execute_test\<close>.  An exception that leaves the function is \<open>Inl\<close>: one of
  \<open>save_test_file\<close>, one of \<open>execute_code_safely\<close>, or the \<open>AttributeError\<close> of
  \<open>result.get\<close> on an object that is no dictionary.
\<close>

definition execute_test :: "script_run \<Rightarrow> AgentState \<Rightarrow> fault + AgentState" where
  "execute_test r state =
     (if \<not> truthy (generated_code state)
      then Inr (state\<lparr> execution_result :=
                  \<lparr> success = False, steps = [], total_time_ms = 0, console_logs = [],
                    error_message = Some ''No code to execute'' \<rparr> \<rparr>)
      else if \<not> is_valid (validation_result state)
      then Inr (state\<lparr> execution_result :=
                  \<lparr> success = False, steps = [], total_time_ms = 0, console_logs = [],
                    error_message =
                      Some (''Code validation failed: ''
                            @ fmt_opt (v_error_message (validation_result state))) \<rparr> \<rparr>)
      else (case saved_file r of
              Inl f \<Rightarrow> Inl f
            | Inr path \<Rightarrow>
                (case execute_code_safely (prepared r) (behaviour r) of
                   Inl f \<Rightarrow> Inl f
                 | Inr Other_object \<Rightarrow> Inl (Uncaught ''AttributeError'')
                 | Inr (Dict result) \<Rightarrow>
                     Inr (state\<lparr> test_file_path := path,
                            execution_result :=
                              \<lparr> success = get_default (res_success result) False,
                                steps = get_default (res_steps result) [],
                                total_time_ms =
                                  get_default (res_total_time_ms result) (elapsed_ms r),
                                console_logs = get_default (res_console_logs result) [],
                                error_message = res_error_message result \<rparr> \<rparr>))))"

section \<open>The graph (graph.py)\<close>

datatype node = Parse_instruction | Generate_code | Validate_code | Execute_test
  | Generate_report | Handle_error | END

definition route_after_validation :: "AgentState \<Rightarrow> node" where
  "route_after_validation state = (if is_valid_fn state then Execute_test else Handle_error)"

definition route_after_error_handler :: "AgentState \<Rightarrow> node" where
  "route_after_error_handler state =
     (if should_retry state then Generate_code else Generate_report)"

definition route_after_execution :: "AgentState \<Rightarrow> node" where
  "route_after_execution state =
     (if success (execution_result state) then Generate_report
      else if should_retry state then Handle_error
      else Generate_report)"

text \<open>
  What lies outside the repository, for one run: the outcome of the language model
  chain, the clock read by \<open>generate_code\<close>, Python's parser, the call of the
  executor and the clock behind the human-readable report.  Each is given the state at
  the call, so it may answer differently at each visit of a node.
\<close>

record collaborators =
  chain_invoke :: "AgentState \<Rightarrow> string + RawAction list"
  clock :: "AgentState \<Rightarrow> string"
  ast_parse :: "string \<Rightarrow> syntax_outcome"
  run_script :: "AgentState \<Rightarrow> script_run"
  render_report :: "AgentState \<Rightarrow> string"

text \<open>
  One step of the compiled graph: the node function, then the edge out of the node.
  A fault that leaves a node function ends the run.
\<close>

fun step :: "collaborators \<Rightarrow> node \<times> AgentState \<Rightarrow> fault + node \<times> AgentState" where
  "step env (Parse_instruction, s) =
     Inr (Generate_code, parse_instruction (chain_invoke env s) s)"
| "step env (Generate_code, s) = Inr (Validate_code, generate_code (clock env s) s)"
| "step env (Validate_code, s) =
     (let s' = validate_code (ast_parse env) s in Inr (route_after_validation s', s'))"
| "step env (Execute_test, s) =
     (case execute_test (run_script env s) s of
        Inl f \<Rightarrow> Inl f
      | Inr s' \<Rightarrow> Inr (route_after_execution s', s'))"
| "step env (Handle_error, s) =
     (let s' = handle_error s in Inr (route_after_error_handler s', s'))"
| "step env (Generate_report, s) = Inr (END, generate_report (render_report env s) s)"
| "step env (END, s) = Inr (END, s)"

text \<open>The configuration after \<open>n\<close> steps.\<close>

fun run :: "collaborators \<Rightarrow> nat \<Rightarrow> node \<times> AgentState \<Rightarrow> fault + node \<times> AgentState" where
  "run env 0 c = Inr c"
| "run env (Suc n) c = (case step env c of Inl f \<Rightarrow> Inl f | Inr c' \<Rightarrow> run env n c')"

text \<open>The nodes of the first \<open>n\<close> configurations of a run.\<close>

fun visited :: "collaborators \<Rightarrow> nat \<Rightarrow> node \<times> AgentState \<Rightarrow> node list" where
  "visited env 0 c = []"
| "visited env (Suc n) c =
     fst c # (case step env c of Inl f \<Rightarrow> [] | Inr c' \<Rightarrow> visited env n c')"

text \<open>\<open>run_agent\<close> starts the graph at its entry point on the initial state.\<close>

definition run_agent :: "collaborators \<Rightarrow> nat \<Rightarrow> string \<Rightarrow> string \<Rightarrow> fault + node \<times> AgentState" where
  "run_agent env n instr url = run env n (Parse_instruction, create_initial_state instr url)"

section \<open>Concrete inputs\<close>

text \<open>Three actions, two of them on the same selector.\<close>

definition example_actions :: "TestAction list" where
  "example_actions =
     [\<lparr> action = Str ''fill'', target = Null, selector = Str ''input[name='username']'',
         avalue = Str ''alice'' \<rparr>,
      \<lparr> action = Str ''click'', target = Null, selector = Str ''#go'', avalue = Null \<rparr>,
      \<lparr> action = Str ''wait'', target = Null, selector = Str ''input[name='username']'',
         avalue = Null \<rparr>]"

text \<open>A state after a run that failed on that selector, with a validated script.\<close>

definition failed_run_state :: AgentState where
  \<open>failed_run_state =
     (create_initial_state ''log in'' ''http://localhost:5000'')
       \<lparr> parsed_actions := example_actions,
         generated_code := ''stale'',
         validation_result := \<lparr> is_valid = True, v_error_message = None, error_line = None \<rparr>,
         execution_result :=
           \<lparr> success = False, steps = [], total_time_ms = 5, console_logs = [],
             error_message = Some ''Selector "input[name='username']" not found'' \<rparr> \<rparr>\<close>

text \<open>The state \<open>validate_code\<close> leaves when there is no script.\<close>

definition no_code_state :: AgentState where
  "no_code_state =
     (create_initial_state ''log in'' ''http://localhost:5000'')
       \<lparr> validation_result :=
           \<lparr> is_valid = False, v_error_message = Some ''No code to validate'',
             error_line = Some 0 \<rparr> \<rparr>"

text \<open>A state with one action to generate code from.\<close>

definition click_state :: AgentState where
  "click_state =
     (create_initial_state ''press go'' ''http://localhost:5000'')
       \<lparr> parsed_actions :=
           [\<lparr> action = Str ''click'', target = Null, selector = Str ''#go'',
               avalue = Null \<rparr>] \<rparr>"

text \<open>
  A state with one action whose value the language model gave as the number 12345
  and not as a string.
\<close>

definition number_state :: AgentState where
  "number_state =
     (create_initial_state ''enter the code'' ''http://localhost:5000'')
       \<lparr> parsed_actions :=
           [\<lparr> action = Str ''fill'', target = Null, selector = Str ''#code'',
               avalue = Non_string True ''int'' ''12345'' \<rparr>] \<rparr>"

text \<open>A script with the imports, the entry function, a launch, a close and one selector.\<close>

definition small_script :: string where
  \<open>small_script =
     join_nl
       [''from playwright.sync_api import sync_playwright'',
        ''def run_test():'',
        ''    with sync_playwright() as p:'',
        ''        browser = p.chromium.launch()'',
        ''        page = browser.new_page()'',
        ''        page.click("#go")'',
        ''        browser.close()'',
        ''    return {"success": True, "steps": []}'',
        '''']\<close>



text \<open>A call of the executor in which the file operations succeed.\<close>

definition plain_run :: "script_behaviour \<Rightarrow> script_run" where
  "plain_run what =
     \<lparr> saved_file = Inr ''playwright_tests/generated_test_0.py'', prepared = None,
       behaviour = what, elapsed_ms = 1 \<rparr>"

text \<open>Collaborators of a run in which the language model call fails.\<close>

definition failing_translator :: collaborators where
  "failing_translator =
     \<lparr> chain_invoke = (\<lambda>s. Inl ''API key not valid''),
       clock = (\<lambda>s. ''2025-01-01T00:00:00''),
       ast_parse = (\<lambda>code. Parsed),
       run_script = (\<lambda>s. plain_run Defines_no_run_test),
       render_report = (\<lambda>s. []) \<rparr>"

text \<open>The state of that run when it first reaches the error handler.\<close>

definition parse_failed_state :: AgentState where
  "parse_failed_state =
     (create_initial_state ''log in'' ''http://localhost:5000'')
       \<lparr> errors := [''Failed to parse instruction: API key not valid'',
                    ''No parsed actions to generate code from''],
         validation_result :=
           \<lparr> is_valid = False, v_error_message = Some ''No code to validate'',
             error_line = Some 0 \<rparr> \<rparr>"



section \<open>Properties of the reporter\<close>

lemma filter_split_length:
  "length (filter P xs) + length (filter (\<lambda>x. \<not> P x) xs) = length xs"
  by (induction xs) auto

lemma s_failed_count:
  "s_failed (calculate_summary sts) = int (length (filter (\<lambda>st. status st \<noteq> ''pass'') sts))"
proof -
  have "length (filter (\<lambda>st. status st = ''pass'') sts)
        + length (filter (\<lambda>st. status st \<noteq> ''pass'') sts) = length sts"
    by (rule filter_split_length)
  then show ?thesis
    by (simp add: calculate_summary_def Let_def)
qed


text \<open>
  C10.  In the report of \<open>generate_report\<close>, \<open>passed + failed = total_steps\<close>;
  \<open>total_steps\<close> is the number of steps, \<open>passed\<close> counts exactly the steps whose
  status is the text pass, and \<open>failed\<close> counts every other step, whatever its status.
\<close>

theorem report_counts_partition:
  "passed (report (generate_report hr state)) + failed (report (generate_report hr state))
     = total_steps (report (generate_report hr state))
   \<and> total_steps (report (generate_report hr state))
     = int (length (steps (execution_result state)))
   \<and> passed (report (generate_report hr state))
     = int (length (filter (\<lambda>st. status st = ''pass'') (steps (execution_result state))))
   \<and> failed (report (generate_report hr state))
     = int (length (filter (\<lambda>st. status st \<noteq> ''pass'') (steps (execution_result state))))"
proof -
  let ?sts = "steps (execution_result state)"
  have f: "failed (report (generate_report hr state)) = s_failed (calculate_summary ?sts)"
    by (simp add: generate_report_def Let_def)
  have p: "passed (report (generate_report hr state))
           = int (length (filter (\<lambda>st. status st = ''pass'') ?sts))"
    by (simp add: generate_report_def calculate_summary_def Let_def)
  have t: "total_steps (report (generate_report hr state)) = int (length ?sts)"
    by (simp add: generate_report_def calculate_summary_def Let_def)
  have s: "int (length (filter (\<lambda>st. status st = ''pass'') ?sts))
           + s_failed (calculate_summary ?sts) = int (length ?sts)"
    by (simp add: calculate_summary_def Let_def)
  show ?thesis
    using f p t s by (simp add: s_failed_count)
qed





section \<open>Properties of the error handler\<close>

subsection \<open>The loop over the actions\<close>

lemma rewrite_actions_list:
  "fst (rewrite_actions f n m as)
     = map (\<lambda>a. if selector a = Str f then a\<lparr>selector := Str n\<rparr> else a) as"
  by (induction as arbitrary: m) (simp_all add: case_prod_unfold)

lemma rewrite_actions_flag:
  "snd (rewrite_actions f n m as) \<longleftrightarrow> m \<or> (\<exists>a \<in> set as. selector a = Str f)"
  by (induction as arbitrary: m) (simp_all add: case_prod_unfold)

lemma modify_actions_Cons:
  "modify_actions_with_alternatives state f (alt # alts)
     = (\<exists>a \<in> set (parsed_actions state). selector a = Str f,
        state\<lparr>parsed_actions :=
          map (\<lambda>a. if selector a = Str f then a\<lparr>selector := Str alt\<rparr> else a)
            (parsed_actions state)\<rparr>)"
proof -
  obtain as' m where r: "rewrite_actions f alt False (parsed_actions state) = (as', m)"
    by (cases "rewrite_actions f alt False (parsed_actions state)")
  have "as' = map (\<lambda>a. if selector a = Str f then a\<lparr>selector := Str alt\<rparr> else a)
                (parsed_actions state)"
    using rewrite_actions_list [of f alt False "parsed_actions state"] r by simp
  moreover have "m \<longleftrightarrow> (\<exists>a \<in> set (parsed_actions state). selector a = Str f)"
    using rewrite_actions_flag [of f alt False "parsed_actions state"] r by simp
  ultimately show ?thesis
    by (simp add: modify_actions_with_alternatives_def r)
qed

subsection \<open>The extracted selector is never empty\<close>

lemma match_group_nonempty: "match_group pre cls post t = Some g \<Longrightarrow> g \<noteq> []"
  by (auto simp: match_group_def Let_def split: if_splits)

lemma re_search_Some: "re_search m t = Some g \<Longrightarrow> \<exists>u. m u = Some g"
  by (induction t) (auto split: option.splits)

lemma dot_star_Some: "dot_star m t = Some g \<Longrightarrow> \<exists>u. m u = Some g"
  by (induction t) (auto split: option.splits if_splits)

lemma pattern_nonempty:
  "pattern1 t = Some g \<Longrightarrow> g \<noteq> []"
  "pattern2 t = Some g \<Longrightarrow> g \<noteq> []"
  "pattern3 t = Some g \<Longrightarrow> g \<noteq> []"
  "pattern4 t = Some g \<Longrightarrow> g \<noteq> []"
  by (auto simp: pattern1_def pattern2_def pattern3_def pattern4_def
      dest: match_group_nonempty dot_star_Some split: if_splits)

lemma extract_failed_selector_nonempty:
  assumes "extract_failed_selector msg = Some f"
  shows "f \<noteq> []"
proof -
  from assms consider
      "re_search pattern1 msg = Some f" | "re_search pattern2 msg = Some f"
    | "re_search pattern3 msg = Some f" | "re_search pattern4 msg = Some f"
    by (auto simp: extract_failed_selector_def split: option.splits)
  then show ?thesis
    by cases (auto dest!: re_search_Some dest: pattern_nonempty)
qed

subsection \<open>What the repair changes\<close>

lemma failure_message_retry_count:
  "failure_message (state\<lparr>retry_count := n\<rparr>) = failure_message state"
  by (simp add: failure_message_def)

text \<open>
  The repair with a selector and a first alternative at hand: every action with that
  selector is rewritten, and the script and the validation are reset when one was.
\<close>

lemma repair_with_alternative:
  assumes "extract_failed_selector msg = Some fsel"
    and "suggest_alternative_selectors fsel = alt # alts"
  shows "repair state msg =
      (if \<exists>a \<in> set (parsed_actions state). selector a = Str fsel
       then state\<lparr> parsed_actions :=
                  map (\<lambda>a. if selector a = Str fsel then a\<lparr>selector := Str alt\<rparr> else a)
                    (parsed_actions state),
                generated_code := [],
                validation_result := (validation_result state)\<lparr>is_valid := False\<rparr> \<rparr>
       else state\<lparr> parsed_actions :=
                  map (\<lambda>a. if selector a = Str fsel then a\<lparr>selector := Str alt\<rparr> else a)
                    (parsed_actions state) \<rparr>)"
proof -
  have "fsel \<noteq> []"
    using assms(1) by (rule extract_failed_selector_nonempty)
  then show ?thesis
    using assms by (simp add: repair_def Let_def truthy_def modify_actions_Cons)
qed

text \<open>The repair leaves the counters and the execution result alone.\<close>

lemma repair_frame:
  "retry_count (repair state msg) = retry_count state
   \<and> max_retries (repair state msg) = max_retries state
   \<and> execution_result (repair state msg) = execution_result state"
  by (auto simp: repair_def Let_def modify_actions_with_alternatives_def
      split: option.splits list.splits prod.splits)

text \<open>The repair never makes an invalid script valid.\<close>

lemma repair_keeps_invalid:
  "\<not> is_valid (validation_result state) \<Longrightarrow> \<not> is_valid (validation_result (repair state msg))"
  by (auto simp: repair_def Let_def modify_actions_with_alternatives_def
      split: option.splits list.splits prod.splits)

lemma handle_error_exhausted:
  "max_retries state \<le> retry_count state \<Longrightarrow>
   handle_error state = state\<lparr> errors := errors state @
     [''Maximum retries ('' @ str_int (max_retries state) @ '') exceeded''] \<rparr>"
  by (simp add: handle_error_def)

lemma handle_error_counters:
  "retry_count (handle_error state)
     = (if retry_count state < max_retries state then retry_count state + 1
        else retry_count state)
   \<and> max_retries (handle_error state) = max_retries state"
  by (simp add: handle_error_def Let_def repair_frame split: option.splits)

lemma handle_error_execution_result:
  "execution_result (handle_error state) = execution_result state"
  by (simp add: handle_error_def Let_def repair_frame split: option.splits)

lemma handle_error_keeps_invalid:
  "\<not> is_valid (validation_result state) \<Longrightarrow>
   \<not> is_valid (validation_result (handle_error state))"
  by (simp add: handle_error_def Let_def repair_keeps_invalid split: option.splits)

lemma handle_error_nothing_failed:
  "is_valid (validation_result state) \<Longrightarrow> success (execution_result state) \<Longrightarrow>
   validation_result (handle_error state) = validation_result state"
  by (simp add: handle_error_def Let_def failure_message_def)

text \<open>
  C5.  Let \<open>handle_error\<close> run on a state with retries left, whose failure message
  \<open>msg\<close> is not empty and yields the failing selector \<open>fsel\<close>, for which the list of
  alternatives starts with \<open>alt\<close>.  Then every action of the state whose selector is
  exactly \<open>fsel\<close> gets the selector \<open>alt\<close>, every other action is kept as it is, and if
  at least one action had the selector \<open>fsel\<close>, the generated code is the empty
  text and the validation result is not valid.
\<close>

theorem handle_error_rewrites_every_occurrence:
  assumes "retry_count state < max_retries state"
    and "failure_message state = Some msg" and "msg \<noteq> []"
    and "extract_failed_selector msg = Some fsel"
    and "suggest_alternative_selectors fsel = alt # alts"
  shows "parsed_actions (handle_error state)
           = map (\<lambda>a. if selector a = Str fsel then a\<lparr>selector := Str alt\<rparr> else a)
               (parsed_actions state)
         \<and> ((\<exists>a \<in> set (parsed_actions state). selector a = Str fsel) \<longrightarrow>
              generated_code (handle_error state) = []
              \<and> \<not> is_valid (validation_result (handle_error state)))"
proof -
  let ?s1 = "state\<lparr>retry_count := retry_count state + 1\<rparr>"
  have h: "handle_error state = repair ?s1 msg"
    using assms(1,2,3)
    by (simp add: handle_error_def Let_def truthy_def failure_message_retry_count)
  show ?thesis
    unfolding h repair_with_alternative [OF assms(4,5)] by simp
qed

theorem handle_error_rewrites_witness:
  "parsed_actions (handle_error failed_run_state)
     = [\<lparr> action = Str ''fill'', target = Null, selector = Str ''input[id='username']'',
           avalue = Str ''alice'' \<rparr>,
        \<lparr> action = Str ''click'', target = Null, selector = Str ''#go'', avalue = Null \<rparr>,
        \<lparr> action = Str ''wait'', target = Null, selector = Str ''input[id='username']'',
           avalue = Null \<rparr>]
   \<and> generated_code (handle_error failed_run_state) = []
   \<and> \<not> is_valid (validation_result (handle_error failed_run_state))"
proof -
  have 1: "retry_count failed_run_state < max_retries failed_run_state"
    by (simp add: failed_run_state_def create_initial_state_def)
  have 2: \<open>failure_message failed_run_state
           = Some ''Selector "input[name='username']" not found''\<close>
    by (simp add: failure_message_def failed_run_state_def create_initial_state_def)
  have 3: \<open>''Selector "input[name='username']" not found'' \<noteq> []\<close>
    by simp
  have 4: \<open>extract_failed_selector ''Selector "input[name='username']" not found''
           = Some ''input[name='username']''\<close>
    by code_simp
  have 5: "suggest_alternative_selectors ''input[name='username']''
           = ''input[id='username']''
             # [''input[type='text']'', ''#username'', ''[placeholder*='user']'',
                ''[placeholder*='username']'']"
    by code_simp
  have a: "parsed_actions failed_run_state = example_actions"
    by (simp add: failed_run_state_def create_initial_state_def)
  show ?thesis
    using handle_error_rewrites_every_occurrence [OF 1 2 3 4 5]
    by (simp add: a example_actions_def)
qed

section \<open>The router after the error handler\<close>

text \<open>
  C1, as the code has it.  After \<open>handle_error\<close> has run on a state whose retry counter
  is below \<open>max_retries\<close>, the router sends control to \<open>generate_code\<close> exactly when
  the incremented counter is still below \<open>max_retries\<close> and the state records a failure
  (the validation is not valid or the execution did not succeed), and to
  \<open>generate_report\<close> otherwise.  Whether a selector was rewritten plays no part.
\<close>

theorem handle_error_then_route:
  assumes "retry_count state < max_retries state"
  shows "route_after_error_handler (handle_error state)
           = (if retry_count state + 1 < max_retries state
                 \<and> (\<not> is_valid (validation_result state)
                     \<or> \<not> success (execution_result state))
              then Generate_code else Generate_report)"
proof (cases "is_valid (validation_result state) \<and> success (execution_result state)")
  case True
  then have "validation_result (handle_error state) = validation_result state"
    by (simp add: handle_error_nothing_failed)
  then show ?thesis
    using True assms
    by (simp add: route_after_error_handler_def should_retry_def handle_error_counters
        handle_error_execution_result)
next
  case False
  show ?thesis
  proof (cases "is_valid (validation_result state)")
    case True
    with False have "\<not> success (execution_result state)" by simp
    then show ?thesis
      using assms
      by (simp add: route_after_error_handler_def should_retry_def handle_error_counters
          handle_error_execution_result)
  next
    case False
    then have "\<not> is_valid (validation_result (handle_error state))"
      by (rule handle_error_keeps_invalid)
    then show ?thesis
      using False assms
      by (simp add: route_after_error_handler_def should_retry_def handle_error_counters)
  qed
qed

theorem handle_error_then_route_witness:
  "route_after_error_handler (handle_error failed_run_state) = Generate_code
   \<and> route_after_error_handler (handle_error (failed_run_state\<lparr>retry_count := 2\<rparr>))
       = Generate_report"
proof -
  have 1: "retry_count failed_run_state < max_retries failed_run_state"
    by (simp add: failed_run_state_def create_initial_state_def)
  have 2: "retry_count (failed_run_state\<lparr>retry_count := 2\<rparr>)
           < max_retries (failed_run_state\<lparr>retry_count := 2\<rparr>)"
    by (simp add: failed_run_state_def create_initial_state_def)
  show ?thesis
    using handle_error_then_route [OF 1] handle_error_then_route [OF 2]
    by (simp add: failed_run_state_def create_initial_state_def)
qed

text \<open>
  C1 as stated fails.  On the state with the validation error \<open>No code to validate\<close>
  and the counter 0 of 3, no selector is extracted, \<open>handle_error\<close> changes nothing but
  the counter, and the router still sends control to \<open>generate_code\<close>.
\<close>

theorem retry_without_repair_counterexample:
  "retry_count no_code_state < max_retries no_code_state
   \<and> failure_message no_code_state = Some ''No code to validate''
   \<and> extract_failed_selector ''No code to validate'' = None
   \<and> handle_error no_code_state = no_code_state\<lparr>retry_count := 1\<rparr>
   \<and> route_after_error_handler (handle_error no_code_state) = Generate_code"
proof -
  have e: "extract_failed_selector ''No code to validate'' = None"
    by code_simp
  have f: "failure_message no_code_state = Some ''No code to validate''"
    by (simp add: failure_message_def no_code_state_def create_initial_state_def)
  have h: "handle_error no_code_state = no_code_state\<lparr>retry_count := 1\<rparr>"
    by (simp add: handle_error_def Let_def failure_message_retry_count f repair_def e truthy_def)
      (simp add: no_code_state_def create_initial_state_def)
  show ?thesis
    unfolding h using e f
    by (simp add: route_after_error_handler_def should_retry_def no_code_state_def
        create_initial_state_def)
qed

section \<open>Properties of the suggested alternatives\<close>

lemma suggest_alternatives_at_most_5: "length (suggest_alternative_selectors s) \<le> 5"
  by (simp add: suggest_alternative_selectors_def Let_def)

text \<open>
  C4 at a failing input.  The failed selector is removed from the alternatives of the
  keyword table before the generic alternatives are appended, and not again after: for
  the selector \<open>button:first-of-type\<close>, which is one of the generic alternatives, the
  list returned contains the selector itself, as its fifth element.
\<close>

theorem suggest_alternatives_returns_input:
  "suggest_alternative_selectors ''button:first-of-type''
     = [''button[type='submit']'', ''button'', ''input[type='submit']'', ''[role='button']'',
        ''button:first-of-type'']
   \<and> ''button:first-of-type'' \<in> set (suggest_alternative_selectors ''button:first-of-type'')"
  by code_simp

section \<open>Properties of the validator\<close>

lemma check_selectors_always_fails:
  "check_selectors code = (False, ''Empty selector detected'')"
  by (simp add: check_selectors_def truthy_def)

lemma first_failed_check_invalid:
  "(name, False, msg, line) \<in> set checks \<Longrightarrow> \<not> is_valid (first_failed_check checks)"
  by (induction checks rule: first_failed_check.induct) auto

text \<open>No script is ever found valid: the selector check fails on every text.\<close>

lemma validate_code_never_valid:
  "\<not> is_valid (validation_result (validate_code python_parse state))"
proof (cases "truthy (generated_code state)")
  case False
  then show ?thesis
    by (simp add: validate_code_def Let_def)
next
  case True
  have "\<not> is_valid (first_failed_check
          [(''Syntax'', check_syntax python_parse (generated_code state)),
           (''Imports'', with_line_0 (check_required_imports (generated_code state))),
           (''Structure'', with_line_0 (check_function_structure (generated_code state))),
           (''Selectors'', with_line_0 (check_selectors (generated_code state)))])"
    by (rule first_failed_check_invalid [of "''Selectors''" "''Empty selector detected''" 0])
      (simp add: check_selectors_always_fails with_line_0_def)
  with True show ?thesis
    by (simp add: validate_code_def Let_def)
qed

text \<open>
  C3 at a failing input.  The script \<open>small_script\<close> is not empty, passes the syntax
  check (for a parser that accepts it), the import check and the structure check, passes
  no empty selector to \<open>page.click\<close> or \<open>page.fill\<close>, and its one selector has no
  quote in it; \<open>validate_code\<close> still rejects it, with the message of the selector
  check.
\<close>

theorem validate_rejects_clean_script:
  \<open>small_script \<noteq> []
   \<and> check_syntax (\<lambda>code. Parsed) small_script = (True, [], 0)
   \<and> check_required_imports small_script = (True, [])
   \<and> check_function_structure small_script = (True, [])
   \<and> py_in ''page.click("")'' small_script = False
   \<and> py_in ''page.fill("",'' small_script = False
   \<and> findall_selectors 0 small_script = [''#go'']
   \<and> unescaped_quotes (findall_selectors 0 small_script) = (True, [])
   \<and> validation_result
        (validate_code (\<lambda>code. Parsed)
           ((create_initial_state ''press go'' ''http://localhost:5000'')
              \<lparr>generated_code := small_script\<rparr>))
      = \<lparr> is_valid = False,
          v_error_message = Some ''Selectors check failed: Empty selector detected'',
          error_line = Some 0 \<rparr>\<close>
  by code_simp

section \<open>Properties of the code generator\<close>

lemma join_nl_third_inj:
  "join_nl (a # b # (p @ t1) # d # ls) = join_nl (a # b # (p @ t2) # d # ls) \<longleftrightarrow> t1 = t2"
  by simp

text \<open>Two instances of the template that differ in the timestamp only are different texts.\<close>

lemma template_timestamp_inj:
  "PLAYWRIGHT_TEMPLATE t1 i body rv = PLAYWRIGHT_TEMPLATE t2 i body rv \<longleftrightarrow> t1 = t2"
  unfolding PLAYWRIGHT_TEMPLATE_def by (rule join_nl_third_inj)

lemma template_not_empty: "PLAYWRIGHT_TEMPLATE t i body rv \<noteq> []"
  by (simp add: PLAYWRIGHT_TEMPLATE_def)

subsection \<open>When the generation raises\<close>

lemma escape_val_raises: "isl (escape_val v) \<longleftrightarrow> truthy_non_string v"
  by (cases v) (simp_all add: escape_val_def truthy_val_def truthy_non_string_def)

lemma escape_val_result:
  assumes "escape_val v = Inr w"
  shows "\<not> truthy_non_string w"
  using assms
  by (cases v) (auto simp: escape_val_def truthy_val_def truthy_non_string_def split: if_splits)

lemma action_lines_raises:
  assumes "\<not> truthy_non_string v"
  shows "isl (action_lines a url sel v) \<longleftrightarrow> action a = Str ''goto'' \<and> truthy_non_string (target a)"
proof (cases "action a = Str ''goto''")
  case False
  then show ?thesis
    by (simp add: action_lines_def)
next
  case True
  with assms show ?thesis
    by (cases "target a"; cases v)
      (simp_all add: action_lines_def Let_def py_or_def truthy_val_def truthy_non_string_def
        truthy_def)
qed

lemma generate_step_code_raises: "isl (generate_step_code a i url) \<longleftrightarrow> unrenderable a"
proof (cases "escape_val (selector a)")
  case (Inl e)
  then have "truthy_non_string (selector a)"
    using escape_val_raises [of "selector a"] by simp
  with Inl show ?thesis
    by (simp add: generate_step_code_def unrenderable_def)
next
  case sel: (Inr sel)
  then have ns: "\<not> truthy_non_string (selector a)"
    using escape_val_raises [of "selector a"] by simp
  show ?thesis
  proof (cases "escape_val (avalue a)")
    case (Inl e)
    then have "truthy_non_string (avalue a)"
      using escape_val_raises [of "avalue a"] by simp
    with Inl sel show ?thesis
      by (simp add: generate_step_code_def unrenderable_def)
  next
    case v: (Inr v)
    then have nv: "\<not> truthy_non_string (avalue a)"
      using escape_val_raises [of "avalue a"] by simp
    have "\<not> truthy_non_string v"
      using v by (rule escape_val_result)
    from action_lines_raises [OF this, of a url sel] sel v ns nv show ?thesis
      by (cases "action_lines a url sel v")
        (simp_all add: generate_step_code_def unrenderable_def)
  qed
qed

lemma step_codes_raises: "isl (step_codes as i url) \<longleftrightarrow> (\<exists>a \<in> set as. unrenderable a)"
proof (induction as arbitrary: i)
  case Nil
  then show ?case by simp
next
  case (Cons a as)
  show ?case
    using generate_step_code_raises [of a i url] Cons.IH [of "i + 1"]
    by (cases "generate_step_code a i url"; cases "step_codes as (i + 1) url") simp_all
qed

text \<open>
  The script of \<open>generate_code\<close>: the empty text when there is no action or the
  generation raises, an instance of the template otherwise.
\<close>

lemma generate_code_script:
  "generated_code (generate_code t s)
     = (if parsed_actions s = [] \<or> (\<exists>a \<in> set (parsed_actions s). unrenderable a) then []
        else PLAYWRIGHT_TEMPLATE t (escape_quotes (instruction s))
               (join_nl (projr (step_codes (parsed_actions s) 1 (base_url s)))) ''False'')"
  using step_codes_raises [of "parsed_actions s" 1 "base_url s"]
  by (cases "step_codes (parsed_actions s) 1 (base_url s)") (simp_all add: generate_code_def)

text \<open>
  C7, as the code has it.  For two states with the same actions, base URL and
  instruction, whatever their other fields, \<open>generate_code\<close> yields the same script
  text exactly when the two calls read the same time from the clock, or no script is
  written: there is no action, or the generation raises on an action whose selector,
  value or target is true and no string (and the script is the empty text).
\<close>

theorem generate_code_depends_on_clock_only:
  assumes "parsed_actions s1 = parsed_actions s2"
    and "base_url s1 = base_url s2"
    and "instruction s1 = instruction s2"
  shows "generated_code (generate_code t1 s1) = generated_code (generate_code t2 s2)
           \<longleftrightarrow> t1 = t2 \<or> parsed_actions s1 = []
               \<or> (\<exists>a \<in> set (parsed_actions s1). unrenderable a)"
  using assms by (auto simp: generate_code_script template_timestamp_inj)

theorem generate_code_depends_on_clock_only_witness:
  "generated_code (generate_code ''2025-01-01T00:00:00'' click_state)
     = generated_code
         (generate_code ''2025-01-01T00:00:00''
            (click_state\<lparr> retry_count := 1, errors := [''earlier failure''] \<rparr>))
   \<and> generated_code (generate_code ''2025-01-01T00:00:00'' number_state)
     = generated_code (generate_code ''2025-01-01T00:00:01'' number_state)
   \<and> (\<exists>a \<in> set (parsed_actions number_state). unrenderable a)"
proof -
  have c: "parsed_actions click_state
          = parsed_actions (click_state\<lparr> retry_count := 1, errors := [''earlier failure''] \<rparr>)"
    "base_url click_state
          = base_url (click_state\<lparr> retry_count := 1, errors := [''earlier failure''] \<rparr>)"
    "instruction click_state
          = instruction (click_state\<lparr> retry_count := 1, errors := [''earlier failure''] \<rparr>)"
    by simp_all
  have u: "\<exists>a \<in> set (parsed_actions number_state). unrenderable a"
    by (simp add: number_state_def unrenderable_def truthy_non_string_def)
  show ?thesis
    using generate_code_depends_on_clock_only
            [OF c, of "''2025-01-01T00:00:00''" "''2025-01-01T00:00:00''"]
          generate_code_depends_on_clock_only
            [OF refl refl refl, of "''2025-01-01T00:00:00''" number_state
               "''2025-01-01T00:00:01''"]
          u
    by simp
qed

text \<open>
  On the action with the value 12345 the call of \<open>replace\<close> raises, whatever the
  clock: the script is the empty text and the failure is recorded.
\<close>

lemma generate_code_number_state:
  "generate_code t number_state
     = number_state
         \<lparr> errors := [''Failed to generate code: ''
                       @ attribute_error ''int'' ''replace''],
           generated_code := [] \<rparr>"
  by (simp add: generate_code_def number_state_def create_initial_state_def
      generate_step_code_def escape_val_def truthy_val_def truthy_def)

text \<open>
  C7 as stated fails: two calls on the same state, one second apart, give two
  different scripts.
\<close>

theorem generate_code_clock_counterexample:
  "generated_code (generate_code ''2025-01-01T00:00:00'' click_state)
      \<noteq> generated_code (generate_code ''2025-01-01T00:00:01'' click_state)"
proof -
  have "parsed_actions click_state \<noteq> []"
    and "\<not> (\<exists>a \<in> set (parsed_actions click_state). unrenderable a)"
    by (simp_all add: click_state_def unrenderable_def truthy_non_string_def)
  moreover have "''2025-01-01T00:00:00'' \<noteq> ''2025-01-01T00:00:01''"
    by simp
  ultimately show ?thesis
    by (simp add: generate_code_script template_timestamp_inj)
qed

section \<open>Properties of the executor\<close>


text \<open>
  The faults the handler does not catch either: one of the file operations before the
  \<open>try\<close>, and the one \<open>str(e)\<close> raises in the handler itself.
\<close>

lemma execute_code_safely_uncaught:
  "execute_code_safely (Some f) what = Inl f"
  "execute_code_safely None (Raises name (Str_raises inner) traceback) = Inl (Uncaught inner)"
  by (simp_all add: execute_code_safely_def)


section \<open>Properties of the graph\<close>

text \<open>The message for a missing script names no selector.\<close>

lemma no_code_message_has_no_selector:
  "extract_failed_selector ''No code to validate'' = None"
  by code_simp

subsection \<open>The retry counter\<close>

text \<open>
  Every step keeps \<open>max_retries\<close>, and only a step of the error handler with retries
  left changes \<open>retry_count\<close>, by one.
\<close>

lemma step_counters:
  assumes "step env (nd, s) = Inr (nd', s')"
  shows "max_retries s' = max_retries s
         \<and> retry_count s'
             = (if nd = Handle_error \<and> retry_count s < max_retries s
                then retry_count s + 1 else retry_count s)"
proof (cases nd)
  case Parse_instruction
  with assms show ?thesis
    by (auto simp: parse_instruction_def split: sum.splits)
next
  case Generate_code
  with assms show ?thesis
    by (auto simp: generate_code_def split: sum.splits)
next
  case Validate_code
  with assms show ?thesis
    by (auto simp: validate_code_def Let_def)
next
  case Execute_test
  with assms show ?thesis
    by (auto simp: execute_test_def split: sum.splits py_object.splits if_splits)
next
  case Generate_report
  with assms show ?thesis
    by (auto simp: generate_report_def Let_def)
next
  case Handle_error
  with assms show ?thesis
    using handle_error_counters [of s] by (auto simp: Let_def)
next
  case END
  with assms show ?thesis by auto
qed

lemma run_keeps_bounds:
  assumes "run env n c = Inr c'"
    and "0 \<le> retry_count (snd c)" and "retry_count (snd c) \<le> max_retries (snd c)"
  shows "0 \<le> retry_count (snd c') \<and> retry_count (snd c') \<le> max_retries (snd c')"
  using assms
proof (induction n arbitrary: c)
  case 0
  then show ?case by simp
next
  case (Suc n)
  from Suc.prems(1) obtain c1 where s: "step env c = Inr c1" and r: "run env n c1 = Inr c'"
    by (auto split: sum.splits)
  have "step env (fst c, snd c) = Inr (fst c1, snd c1)"
    using s by simp
  from step_counters [OF this] Suc.prems(2,3)
  have "0 \<le> retry_count (snd c1) \<and> retry_count (snd c1) \<le> max_retries (snd c1)"
    by (auto split: if_splits)
  with Suc.IH [OF r] show ?case by simp
qed

text \<open>
  C2.  In every run of the graph from the initial state, whatever the collaborators
  do, after any number of steps the retry counter is at least 0 and at most
  \<open>max_retries\<close>.  A further step keeps \<open>max_retries\<close> and these bounds, and either
  keeps the counter or is a step of \<open>handle_error\<close> taken with the counter below
  \<open>max_retries\<close>, which adds exactly one.
\<close>

theorem retry_count_bounded:
  assumes "run_agent env n instr url = Inr (nd, s)"
  shows "0 \<le> retry_count s \<and> retry_count s \<le> max_retries s
         \<and> (\<forall>nd' s'. step env (nd, s) = Inr (nd', s') \<longrightarrow>
               max_retries s' = max_retries s
               \<and> 0 \<le> retry_count s' \<and> retry_count s' \<le> max_retries s'
               \<and> (retry_count s' = retry_count s
                   \<or> nd = Handle_error \<and> retry_count s < max_retries s
                      \<and> retry_count s' = retry_count s + 1))"
proof -
  have b: "0 \<le> retry_count s \<and> retry_count s \<le> max_retries s"
    using run_keeps_bounds [of env n "(Parse_instruction, create_initial_state instr url)" "(nd, s)"]
      assms
    by (simp add: run_agent_def create_initial_state_def)
  show ?thesis
  proof (intro conjI allI impI)
    fix nd' s'
    assume st: "step env (nd, s) = Inr (nd', s')"
    note c = step_counters [OF st]
    show "max_retries s' = max_retries s" using c by simp
    show "0 \<le> retry_count s'" using c b by (auto split: if_splits)
    show "retry_count s' \<le> max_retries s'" using c b by (auto split: if_splits)
    show "retry_count s' = retry_count s
          \<or> nd = Handle_error \<and> retry_count s < max_retries s
             \<and> retry_count s' = retry_count s + 1"
      using c by (auto split: if_splits)
  qed (use b in simp_all)
qed

theorem retry_count_bounded_witness:
  "run_agent failing_translator 3 ''log in'' ''http://localhost:5000''
     = Inr (Handle_error, parse_failed_state)
   \<and> 0 \<le> retry_count parse_failed_state
   \<and> retry_count parse_failed_state \<le> max_retries parse_failed_state
   \<and> step failing_translator (Handle_error, parse_failed_state)
     = Inr (Generate_code, parse_failed_state\<lparr>retry_count := 1\<rparr>)
   \<and> retry_count (parse_failed_state\<lparr>retry_count := 1\<rparr>) = retry_count parse_failed_state + 1
   \<and> retry_count (parse_failed_state\<lparr>retry_count := 1\<rparr>)
       \<le> max_retries (parse_failed_state\<lparr>retry_count := 1\<rparr>)"
proof -
  have r: "run_agent failing_translator 3 ''log in'' ''http://localhost:5000''
           = Inr (Handle_error, parse_failed_state)"
    by (simp add: run_agent_def eval_nat_numeral failing_translator_def parse_instruction_def
        create_initial_state_def generate_code_def validate_code_def truthy_def
        route_after_validation_def is_valid_fn_def parse_failed_state_def Let_def)
  have st: "step failing_translator (Handle_error, parse_failed_state)
            = Inr (Generate_code, parse_failed_state\<lparr>retry_count := 1\<rparr>)"
    by (simp add: parse_failed_state_def create_initial_state_def
        handle_error_def failure_message_def repair_def no_code_message_has_no_selector
        route_after_error_handler_def should_retry_def Let_def truthy_def)
  have rc: "retry_count parse_failed_state = 0"
    by (simp add: parse_failed_state_def create_initial_state_def)
  have b: "0 \<le> retry_count parse_failed_state
           \<and> retry_count parse_failed_state \<le> max_retries parse_failed_state"
    using retry_count_bounded [OF r] by blast
  have n: "retry_count (parse_failed_state\<lparr>retry_count := 1\<rparr>)
           \<le> max_retries (parse_failed_state\<lparr>retry_count := 1\<rparr>)"
    using retry_count_bounded [OF r] st by blast
  have i: "retry_count (parse_failed_state\<lparr>retry_count := 1\<rparr>)
           = retry_count parse_failed_state + 1"
    using rc by simp
  show ?thesis
    using r st b n i by blast
qed

subsection \<open>A run in which the translator fails\<close>

lemma generate_code_no_actions:
  "parsed_actions s = [] \<Longrightarrow>
   generate_code ts s
     = s\<lparr> errors := errors s @ [''No parsed actions to generate code from''],
          generated_code := [] \<rparr>"
  by (simp add: generate_code_def)

lemma validate_code_no_code:
  "generated_code s = [] \<Longrightarrow>
   validate_code p s
     = s\<lparr> validation_result :=
            \<lparr> is_valid = False, v_error_message = Some ''No code to validate'',
              error_line = Some 0 \<rparr> \<rparr>"
  by (simp add: validate_code_def truthy_def)

lemma handle_error_no_code:
  assumes "retry_count s < max_retries s"
    and "validation_result s
           = \<lparr> is_valid = False, v_error_message = Some ''No code to validate'',
               error_line = Some 0 \<rparr>"
  shows "handle_error s = s\<lparr>retry_count := retry_count s + 1\<rparr>"
  using assms
  by (simp add: handle_error_def Let_def failure_message_def repair_def truthy_def
      no_code_message_has_no_selector)

text \<open>One round of the loop on a state without actions.\<close>

lemma round_without_actions:
  assumes "parsed_actions s = []" and "retry_count s < max_retries s"
  shows "step env (Generate_code, s)
           = Inr (Validate_code,
                  s\<lparr> errors := errors s @ [''No parsed actions to generate code from''],
                     generated_code := [] \<rparr>)"
    and "step env (Validate_code,
                  s\<lparr> errors := errors s @ [''No parsed actions to generate code from''],
                     generated_code := [] \<rparr>)
           = Inr (Handle_error,
                  s\<lparr> errors := errors s @ [''No parsed actions to generate code from''],
                     generated_code := [],
                     validation_result :=
                       \<lparr> is_valid = False, v_error_message = Some ''No code to validate'',
                         error_line = Some 0 \<rparr> \<rparr>)"
    and "step env (Handle_error,
                  s\<lparr> errors := errors s @ [''No parsed actions to generate code from''],
                     generated_code := [],
                     validation_result :=
                       \<lparr> is_valid = False, v_error_message = Some ''No code to validate'',
                         error_line = Some 0 \<rparr> \<rparr>)
           = Inr (if retry_count s + 1 < max_retries s then Generate_code else Generate_report,
                  s\<lparr> errors := errors s @ [''No parsed actions to generate code from''],
                     generated_code := [],
                     validation_result :=
                       \<lparr> is_valid = False, v_error_message = Some ''No code to validate'',
                         error_line = Some 0 \<rparr>,
                     retry_count := retry_count s + 1 \<rparr>)"
proof -
  show "step env (Generate_code, s)
           = Inr (Validate_code,
                  s\<lparr> errors := errors s @ [''No parsed actions to generate code from''],
                     generated_code := [] \<rparr>)"
    using assms(1) by (simp add: generate_code_no_actions)
  show "step env (Validate_code,
                  s\<lparr> errors := errors s @ [''No parsed actions to generate code from''],
                     generated_code := [] \<rparr>)
           = Inr (Handle_error,
                  s\<lparr> errors := errors s @ [''No parsed actions to generate code from''],
                     generated_code := [],
                     validation_result :=
                       \<lparr> is_valid = False, v_error_message = Some ''No code to validate'',
                         error_line = Some 0 \<rparr> \<rparr>)"
    by (simp add: validate_code_no_code route_after_validation_def is_valid_fn_def)
  show "step env (Handle_error,
                  s\<lparr> errors := errors s @ [''No parsed actions to generate code from''],
                     generated_code := [],
                     validation_result :=
                       \<lparr> is_valid = False, v_error_message = Some ''No code to validate'',
                         error_line = Some 0 \<rparr> \<rparr>)
           = Inr (if retry_count s + 1 < max_retries s then Generate_code else Generate_report,
                  s\<lparr> errors := errors s @ [''No parsed actions to generate code from''],
                     generated_code := [],
                     validation_result :=
                       \<lparr> is_valid = False, v_error_message = Some ''No code to validate'',
                         error_line = Some 0 \<rparr>,
                     retry_count := retry_count s + 1 \<rparr>)"
    using assms(2)
    by (simp add: handle_error_no_code route_after_error_handler_def should_retry_def)
qed

lemma three_steps_without_actions:
  assumes "parsed_actions s = []" and "retry_count s < max_retries s"
  shows "run env (Suc (Suc (Suc n))) (Generate_code, s)
           = run env n
               (if retry_count s + 1 < max_retries s then Generate_code else Generate_report,
                s\<lparr> errors := errors s @ [''No parsed actions to generate code from''],
                   generated_code := [],
                   validation_result :=
                     \<lparr> is_valid = False, v_error_message = Some ''No code to validate'',
                       error_line = Some 0 \<rparr>,
                   retry_count := retry_count s + 1 \<rparr>)"
    and "visited env (Suc (Suc (Suc n))) (Generate_code, s)
           = Generate_code # Validate_code # Handle_error
             # visited env n
                 (if retry_count s + 1 < max_retries s then Generate_code else Generate_report,
                  s\<lparr> errors := errors s @ [''No parsed actions to generate code from''],
                     generated_code := [],
                     validation_result :=
                       \<lparr> is_valid = False, v_error_message = Some ''No code to validate'',
                         error_line = Some 0 \<rparr>,
                     retry_count := retry_count s + 1 \<rparr>)"
  by (simp_all only: run.simps visited.simps round_without_actions [OF assms] sum.case fst_conv)

text \<open>
  C6, as the code has it.  If the language model call fails with the text \<open>e\<close>, the
  run records the failure in \<open>errors\<close> and has no actions; it then goes three times
  through \<open>generate_code\<close>, \<open>validate_code\<close> and \<open>handle_error\<close>, until the retry
  counter is 3, and ends with \<open>generate_report\<close>: the report is FAILED with no step.
\<close>

theorem translator_failure_run:
  assumes "chain_invoke env (create_initial_state instr url) = Inl e"
  shows "visited env 12 (Parse_instruction, create_initial_state instr url)
           = [Parse_instruction,
              Generate_code, Validate_code, Handle_error,
              Generate_code, Validate_code, Handle_error,
              Generate_code, Validate_code, Handle_error,
              Generate_report, END]
         \<and> (\<exists>s. run_agent env 11 instr url = Inr (END, s)
                \<and> parsed_actions s = []
                \<and> ''Failed to parse instruction: '' @ e \<in> set (errors s)
                \<and> retry_count s = 3
                \<and> r_status (report s) = ''FAILED''
                \<and> total_steps (report s) = 0
                \<and> r_steps (report s) = [])"
proof -
  let ?round = "\<lambda>s. s\<lparr> errors := errors s @ [''No parsed actions to generate code from''],
                       generated_code := [],
                       validation_result :=
                         \<lparr> is_valid = False, v_error_message = Some ''No code to validate'',
                           error_line = Some 0 \<rparr>,
                       retry_count := retry_count s + 1 \<rparr>"
  define s0 where "s0 = create_initial_state instr url"
  define s1 where "s1 = parse_instruction (Inl e) s0"
  define s2 where "s2 = ?round s1"
  define s3 where "s3 = ?round s2"
  define s4 where "s4 = ?round s3"
  define s5 where "s5 = generate_report (render_report env s4) s4"
  have p0: "step env (Parse_instruction, s0) = Inr (Generate_code, s1)"
    using assms by (simp add: s0_def s1_def)
  have f1: "parsed_actions s1 = []" "retry_count s1 = 0" "max_retries s1 = 3"
    by (simp_all add: s1_def s0_def parse_instruction_def create_initial_state_def)
  have f2: "parsed_actions s2 = []" "retry_count s2 = 1" "max_retries s2 = 3"
    by (simp_all add: s2_def f1)
  have f3: "parsed_actions s3 = []" "retry_count s3 = 2" "max_retries s3 = 3"
    by (simp_all add: s3_def f2)
  have r1: "run env (Suc (Suc (Suc n))) (Generate_code, s1) = run env n (Generate_code, s2)"
    and v1: "visited env (Suc (Suc (Suc n))) (Generate_code, s1)
              = Generate_code # Validate_code # Handle_error # visited env n (Generate_code, s2)"
    for n
    using three_steps_without_actions [of s1 env n] by (simp_all add: f1 s2_def)
  have r2: "run env (Suc (Suc (Suc n))) (Generate_code, s2) = run env n (Generate_code, s3)"
    and v2: "visited env (Suc (Suc (Suc n))) (Generate_code, s2)
              = Generate_code # Validate_code # Handle_error # visited env n (Generate_code, s3)"
    for n
    using three_steps_without_actions [of s2 env n] by (simp_all add: f2 s3_def)
  have r3: "run env (Suc (Suc (Suc n))) (Generate_code, s3) = run env n (Generate_report, s4)"
    and v3: "visited env (Suc (Suc (Suc n))) (Generate_code, s3)
              = Generate_code # Validate_code # Handle_error # visited env n (Generate_report, s4)"
    for n
    using three_steps_without_actions [of s3 env n] by (simp_all add: f3 s4_def)
  have p4: "step env (Generate_report, s4) = Inr (END, s5)"
    by (simp add: s5_def)
  have twelve: "(12::nat) = Suc (Suc (Suc (Suc (Suc (Suc (Suc (Suc (Suc (Suc (Suc (Suc 0)))))))))))"
    and eleven: "(11::nat) = Suc (Suc (Suc (Suc (Suc (Suc (Suc (Suc (Suc (Suc (Suc 0))))))))))"
    by simp_all
  have vp: "visited env (Suc n) (Parse_instruction, s0)
              = Parse_instruction # visited env n (Generate_code, s1)"
    and rp: "run env (Suc n) (Parse_instruction, s0) = run env n (Generate_code, s1)"
    and vr: "visited env (Suc n) (Generate_report, s4)
              = Generate_report # visited env n (END, s5)"
    and rr: "run env (Suc n) (Generate_report, s4) = run env n (END, s5)"
    for n
    by (simp_all add: p0 p4 del: step.simps)
  have ve: "visited env (Suc 0) (END, s5) = [END]"
    by simp
  have v: "visited env 12 (Parse_instruction, s0)
           = [Parse_instruction,
              Generate_code, Validate_code, Handle_error,
              Generate_code, Validate_code, Handle_error,
              Generate_code, Validate_code, Handle_error,
              Generate_report, END]"
    unfolding twelve by (simp only: vp v1 v2 v3 vr ve)
  have r: "run_agent env 11 instr url = Inr (END, s5)"
    unfolding eleven run_agent_def s0_def [symmetric]
    by (simp only: rp r1 r2 r3 rr run.simps(1))
  have e4: "execution_result s4 = execution_result s0" "parsed_actions s4 = []"
    "retry_count s4 = 3" "''Failed to parse instruction: '' @ e \<in> set (errors s4)"
    by (simp_all add: s4_def s3_def s2_def s1_def s0_def parse_instruction_def
        create_initial_state_def)
  have final: "parsed_actions s5 = []"
    "''Failed to parse instruction: '' @ e \<in> set (errors s5)"
    "retry_count s5 = 3" "r_status (report s5) = ''FAILED''"
    "total_steps (report s5) = 0" "r_steps (report s5) = []"
    using e4
    by (simp_all add: s5_def generate_report_def calculate_summary_def Let_def s0_def
        create_initial_state_def)
  show ?thesis
    using v r final unfolding s0_def by blast
qed

theorem translator_failure_run_witness:
  "visited failing_translator 12
     (Parse_instruction, create_initial_state ''log in'' ''http://localhost:5000'')
     = [Parse_instruction,
        Generate_code, Validate_code, Handle_error,
        Generate_code, Validate_code, Handle_error,
        Generate_code, Validate_code, Handle_error,
        Generate_report, END]
   \<and> (\<exists>s. run_agent failing_translator 11 ''log in'' ''http://localhost:5000'' = Inr (END, s)
          \<and> parsed_actions s = []
          \<and> ''Failed to parse instruction: API key not valid'' \<in> set (errors s)
          \<and> retry_count s = 3
          \<and> r_status (report s) = ''FAILED''
          \<and> total_steps (report s) = 0
          \<and> r_steps (report s) = [])"
proof -
  have "chain_invoke failing_translator
          (create_initial_state ''log in'' ''http://localhost:5000'')
        = Inl ''API key not valid''"
    by (simp add: failing_translator_def)
  from translator_failure_run [OF this] show ?thesis by simp
qed


text \<open>
  C6 as stated fails: after the failed call the graph goes on to \<open>generate_code\<close>, not
  to the report; it reaches \<open>handle_error\<close> after three steps, and \<open>handle_error\<close>
  sends it back to \<open>generate_code\<close> with the counter at 1.
\<close>

theorem translator_failure_retries_counterexample:
  "chain_invoke failing_translator (create_initial_state ''log in'' ''http://localhost:5000'')
     = Inl ''API key not valid''
   \<and> run_agent failing_translator 1 ''log in'' ''http://localhost:5000''
     = Inr (Generate_code,
            (create_initial_state ''log in'' ''http://localhost:5000'')
              \<lparr> errors := [''Failed to parse instruction: API key not valid''] \<rparr>)
   \<and> run_agent failing_translator 3 ''log in'' ''http://localhost:5000''
     = Inr (Handle_error, parse_failed_state)
   \<and> run_agent failing_translator 4 ''log in'' ''http://localhost:5000''
     = Inr (Generate_code, parse_failed_state\<lparr>retry_count := 1\<rparr>)"
  by (simp add: run_agent_def eval_nat_numeral failing_translator_def parse_instruction_def
      create_initial_state_def generate_code_def validate_code_def truthy_def
      route_after_validation_def is_valid_fn_def parse_failed_state_def
      handle_error_def failure_message_def repair_def no_code_message_has_no_selector
      route_after_error_handler_def should_retry_def Let_def)

end
